theory Spec2Isabelle
  imports Complex_Main
begin

section \<open>Python values, errors and built-ins used by the handler modules\<close>

text \<open>
  The two modules \<^verbatim>\<open>audio_utils.py\<close> and \<^verbatim>\<open>metadata_builder.py\<close> dispatch on the
  run-time type of their arguments, so the embedding works over a datatype of Python
  values. A float is either a finite number (every finite binary float is a rational) or
  one of the three special values; \<open>PObj n\<close> is an object of any other class, carrying
  the qualified name \<open>n\<close> of its class (a \<^verbatim>\<open>torch.Tensor\<close> passed where a string was
  expected, for instance). A dictionary with string keys is an association list in
  insertion order.
\<close>

datatype pyfloat = Finite rat | PosInf | NegInf | NaN

datatype pyval =
    PNone
  | PBool bool
  | PInt int
  | PFloat pyfloat
  | PStr string
  | PList "pyval list"
  | PDict "(string \<times> pyval) list"
  | PObj string

text \<open>Exceptions, each with its message.\<close>

datatype py_error =
    ValueError string
  | TypeError string
  | OverflowError string
  | IndexError string
  | RuntimeError string

datatype error_kind = KValue | KType | KOverflow | KIndex | KRuntime

fun kind_of :: "py_error \<Rightarrow> error_kind" where
  "kind_of (ValueError m) = KValue"
| "kind_of (TypeError m) = KType"
| "kind_of (OverflowError m) = KOverflow"
| "kind_of (IndexError m) = KIndex"
| "kind_of (RuntimeError m) = KRuntime"

subsection \<open>Decimal rendering of integers: \<^verbatim>\<open>str(n)\<close>\<close>

text \<open>
  The digits of an integer of any size; the interpreter's configurable limit on the number
  of digits of such a conversion is not part of the model.
\<close>

definition digit_char :: "nat \<Rightarrow> char" where
  "digit_char d = char_of (48 + d)"

function str_nat :: "nat \<Rightarrow> string" where
  "str_nat n = (if n < 10 then [digit_char n] else str_nat (n div 10) @ [digit_char (n mod 10)])"
  by pat_completeness auto
termination
  by (relation "measure id") auto

declare str_nat.simps [simp del]

definition str_int :: "int \<Rightarrow> string" where
  "str_int i = (if i < 0 then CHR ''-'' # str_nat (nat (- i)) else str_nat (nat i))"

subsection \<open>\<^verbatim>\<open>int(x)\<close> on numbers, \<^verbatim>\<open>str(x)\<close>, \<^verbatim>\<open>type(x)\<close>, truth values\<close>

text \<open>\<^verbatim>\<open>int\<close> of a float truncates towards zero and raises on the special values.\<close>

definition trunc_rat :: "rat \<Rightarrow> int" where
  "trunc_rat r = (if r < 0 then - \<lfloor>- r\<rfloor> else \<lfloor>r\<rfloor>)"

fun int_of_float :: "pyfloat \<Rightarrow> py_error + int" where
  "int_of_float (Finite r) = Inr (trunc_rat r)"
| "int_of_float NaN = Inl (ValueError ''cannot convert float NaN to integer'')"
| "int_of_float PosInf = Inl (OverflowError ''cannot convert float infinity to integer'')"
| "int_of_float NegInf = Inl (OverflowError ''cannot convert float infinity to integer'')"

text \<open>
  \<^verbatim>\<open>isinstance(x, (int, float))\<close>: \<^verbatim>\<open>bool\<close> is a subclass of \<^verbatim>\<open>int\<close>.
\<close>

fun is_int_or_float :: "pyval \<Rightarrow> bool" where
  "is_int_or_float (PBool b) = True"
| "is_int_or_float (PInt i) = True"
| "is_int_or_float (PFloat f) = True"
| "is_int_or_float v = False"

fun is_str :: "pyval \<Rightarrow> bool" where
  "is_str (PStr s) = True"
| "is_str v = False"

fun py_int :: "pyval \<Rightarrow> py_error + int" where
  "py_int (PBool b) = Inr (if b then 1 else 0)"
| "py_int (PInt i) = Inr i"
| "py_int (PFloat f) = int_of_float f"
| "py_int v = Inl (TypeError ''int() argument must be a string, a bytes-like object or a real number'')"

text \<open>
  What an f-string writes for \<^verbatim>\<open>{x}\<close>. The text of a float, of a container and of an
  object of another class is produced by the interpreter and the class itself; it is the
  parameter \<open>other\<close>.
\<close>

fun py_str :: "(pyval \<Rightarrow> string) \<Rightarrow> pyval \<Rightarrow> string" where
  "py_str other PNone = ''None''"
| "py_str other (PBool b) = (if b then ''True'' else ''False'')"
| "py_str other (PInt i) = str_int i"
| "py_str other (PStr s) = s"
| "py_str other v = other v"

fun type_name :: "pyval \<Rightarrow> string" where
  "type_name PNone = ''NoneType''"
| "type_name (PBool b) = ''bool''"
| "type_name (PInt i) = ''int''"
| "type_name (PFloat f) = ''float''"
| "type_name (PStr s) = ''str''"
| "type_name (PList xs) = ''list''"
| "type_name (PDict d) = ''dict''"
| "type_name (PObj n) = n"

definition type_repr :: "pyval \<Rightarrow> string" where
  "type_repr v = ''<class '' @ [CHR 0x27] @ type_name v @ [CHR 0x27] @ ''>''"

fun truthy :: "pyval \<Rightarrow> bool" where
  "truthy PNone = False"
| "truthy (PBool b) = b"
| "truthy (PInt i) = (i \<noteq> 0)"
| "truthy (PFloat f) = (f \<noteq> Finite 0)"
| "truthy (PStr s) = (s \<noteq> [])"
| "truthy (PList xs) = (xs \<noteq> [])"
| "truthy (PDict d) = (d \<noteq> [])"
| "truthy (PObj n) = True"

text \<open>\<^verbatim>\<open>xs * n\<close> on lists: \<open>n\<close> copies, none when \<open>n\<close> is zero or negative.\<close>

definition list_times :: "'a list \<Rightarrow> int \<Rightarrow> 'a list" where
  "list_times xs n = concat (replicate (nat n) xs)"

text \<open>\<^verbatim>\<open>d.get(k, default)\<close>, \<^verbatim>\<open>k in d\<close> and \<^verbatim>\<open>d[k]\<close> on a dictionary.\<close>

definition dict_get :: "(string \<times> pyval) list \<Rightarrow> string \<Rightarrow> pyval \<Rightarrow> pyval" where
  "dict_get d k dflt = (case map_of d k of Some v \<Rightarrow> v | None \<Rightarrow> dflt)"

definition dict_contains :: "(string \<times> pyval) list \<Rightarrow> string \<Rightarrow> bool" where
  "dict_contains d k = (map_of d k \<noteq> None)"

section \<open>audio\_utils\<close>

text \<open>
  An audio tensor of shape \<open>[channels, samples]\<close> is the list of its channels, each the
  list of its samples. Samples are finite numbers, and every finite float is a rational;
  taking absolute values and maxima is exact on floats, so samples are modelled by
  rationals.
\<close>

type_synonym tensor2 = "rat list list"

subsection \<open>is\_silence\<close>

definition tensor_abs :: "tensor2 \<Rightarrow> tensor2" where
  "tensor_abs t = map (map abs) t"

text \<open>\<^verbatim>\<open>t.max()\<close> reduces over all elements and raises on a tensor without elements.\<close>

definition tensor_max :: "tensor2 \<Rightarrow> py_error + rat" where
  "tensor_max t =
     (case concat t of
        [] \<Rightarrow> Inl (RuntimeError ''max(): Expected reduction dim to be specified for input.numel() == 0. Specify the reduction dim with the dim argument.'')
      | x # xs \<Rightarrow> Inr (fold max xs x))"

text \<open>
  The threshold is a Python float, a double. Torch compares in the element type of the
  tensor: it converts the threshold to that type first, and the comparison is between the
  largest absolute sample and the converted threshold. The conversion belongs to the
  library and depends on the element type of the buffer, so it is the parameter
  \<open>to_dtype\<close> of \<open>is_silence\<close>: the identity for a tensor of doubles,
  \<open>to_float32\<close> below for a tensor of single-precision floats, the default element type.
\<close>

fun float_less :: "rat \<Rightarrow> pyfloat \<Rightarrow> bool" where
  "float_less m (Finite t) = (m < t)"
| "float_less m PosInf = True"
| "float_less m NegInf = False"
| "float_less m NaN = False"

definition is_silence :: "(pyfloat \<Rightarrow> pyfloat) \<Rightarrow> tensor2 \<Rightarrow> pyfloat \<Rightarrow> py_error + bool" where
  "is_silence to_dtype audio threshold =
     (case tensor_max (tensor_abs audio) of
        Inl e \<Rightarrow> Inl e
      | Inr m \<Rightarrow> Inr (float_less m (to_dtype threshold)))"

text \<open>
  Conversion of a double to single precision: round to nearest, ties to even, with a
  significand of 24 bits, the smallest exponent \<open>-126\<close> (below it the spacing stays
  \<open>2\<^sup>-\<^sup>1\<^sup>4\<^sup>9\<close>), and infinity from \<open>2\<^sup>1\<^sup>2\<^sup>8\<close> on.
\<close>

function bit_length :: "int \<Rightarrow> nat" where
  "bit_length n = (if n \<le> 0 then 0 else Suc (bit_length (n div 2)))"
  by pat_completeness auto
termination
  by (relation "measure nat") auto

declare bit_length.simps [simp del]

definition pow2 :: "int \<Rightarrow> rat" where
  "pow2 k = (if 0 \<le> k then 2 ^ nat k else 1 / 2 ^ nat (- k))"

text \<open>The exponent \<open>e\<close> with \<open>2\<^sup>e \<le> a < 2\<^sup>e\<^sup>+\<^sup>1\<close>, for \<open>a > 0\<close>.\<close>

definition floor_log2 :: "rat \<Rightarrow> int" where
  "floor_log2 a =
     (let k = int (bit_length (fst (quotient_of a))) - int (bit_length (snd (quotient_of a)))
      in if pow2 k \<le> a then k else k - 1)"

definition round_half_even :: "rat \<Rightarrow> int" where
  "round_half_even x =
     (let f = \<lfloor>x\<rfloor>; r = x - of_int f
      in if r < 1 / 2 then f
         else if 1 / 2 < r then f + 1
         else if even f then f else f + 1)"

definition round_binary :: "nat \<Rightarrow> int \<Rightarrow> rat \<Rightarrow> rat" where
  "round_binary p emin x =
     (if x = 0 then 0
      else let a = \<bar>x\<bar>;
               e = max (floor_log2 a) emin;
               q = pow2 (e - int p + 1);
               n = round_half_even (a / q)
           in (if x < 0 then - 1 else 1) * of_int n * q)"

definition to_float32 :: "pyfloat \<Rightarrow> pyfloat" where
  "to_float32 t =
     (case t of
        Finite r \<Rightarrow>
          (let x = round_binary 24 (- 126) r
           in if pow2 128 \<le> \<bar>x\<bar> then (if x < 0 then NegInf else PosInf) else Finite x)
      | _ \<Rightarrow> t)"

subsection \<open>normalize\_audio\_to\_stereo\_48k\<close>

text \<open>
  \<^verbatim>\<open>t.repeat(a, b)\<close> tiles a two-dimensional tensor \<open>a\<close> times along the channels and
  \<open>b\<close> times along the samples.
\<close>

definition tensor_repeat :: "nat \<Rightarrow> nat \<Rightarrow> tensor2 \<Rightarrow> tensor2" where
  "tensor_repeat a b t = concat (replicate a (map (\<lambda>row. concat (replicate b row)) t))"

text \<open>
  The resampler \<^verbatim>\<open>torchaudio.functional.resample\<close> is a library primitive; it is the
  parameter \<open>resample\<close>.
\<close>

definition normalize_audio_to_stereo_48k ::
  "(tensor2 \<Rightarrow> int \<Rightarrow> int \<Rightarrow> tensor2) \<Rightarrow> tensor2 \<Rightarrow> int \<Rightarrow> int \<Rightarrow> tensor2" where
  "normalize_audio_to_stereo_48k resample audio sr target_sr =
     (let audio1 = (if sr \<noteq> target_sr then resample audio sr target_sr else audio)
      in if length audio1 = 1 then tensor_repeat 2 1 audio1
         else if length audio1 > 2 then take 2 audio1
         else audio1)"

subsection \<open>normalize\_audio\_code\_hints and normalize\_instructions\<close>

text \<open>
  Both functions dispatch on \<^verbatim>\<open>None\<close>, \<^verbatim>\<open>str\<close> and \<^verbatim>\<open>list\<close> in this order and raise
  \<^verbatim>\<open>TypeError\<close> for every other value. The batch size is a Python \<^verbatim>\<open>int\<close>.
\<close>

definition length_mismatch_message :: "string \<Rightarrow> nat \<Rightarrow> int \<Rightarrow> string" where
  "length_mismatch_message what n batch_size =
     what @ '' length ('' @ str_int (int n) @ '') must be 1 or match batch_size (''
       @ str_int batch_size @ '')''"

fun normalize_audio_code_hints :: "pyval \<Rightarrow> int \<Rightarrow> py_error + pyval list" where
  "normalize_audio_code_hints PNone batch_size = Inr (list_times [PNone] batch_size)"
| "normalize_audio_code_hints (PStr s) batch_size = Inr (list_times [PStr s] batch_size)"
| "normalize_audio_code_hints (PList xs) batch_size =
     (if length xs = 0 then Inr (list_times [PNone] batch_size)
      else if length xs = 1 then Inr (list_times xs batch_size)
      else if int (length xs) \<noteq> batch_size
        then Inl (ValueError (length_mismatch_message ''audio_code_hints'' (length xs) batch_size))
      else Inr xs)"
| "normalize_audio_code_hints v batch_size =
     Inl (TypeError (''audio_code_hints must be str, list, or None, got '' @ type_repr v))"

fun normalize_instructions :: "pyval \<Rightarrow> int \<Rightarrow> pyval \<Rightarrow> py_error + pyval list" where
  "normalize_instructions PNone batch_size dflt =
     (if dflt = PNone then Inl (ValueError ''instructions and default cannot both be None'')
      else Inr (list_times [dflt] batch_size))"
| "normalize_instructions (PStr s) batch_size dflt = Inr (list_times [PStr s] batch_size)"
| "normalize_instructions (PList xs) batch_size dflt =
     (if length xs = 0
        then (if dflt = PNone then Inl (ValueError ''Empty instructions list and no default provided'')
              else Inr (list_times [dflt] batch_size))
      else if length xs = 1 then Inr (list_times xs batch_size)
      else if int (length xs) \<noteq> batch_size
        then Inl (ValueError (length_mismatch_message ''instructions'' (length xs) batch_size))
      else Inr xs)"
| "normalize_instructions v batch_size dflt =
     Inl (TypeError (''instructions must be str, list, or None, got '' @ type_repr v))"

fun is_list :: "pyval \<Rightarrow> bool" where
  "is_list (PList xs) = True"
| "is_list v = False"

subsection \<open>pad\_sequences\<close>

text \<open>
  \<^verbatim>\<open>torch.full((rows, cols), v)\<close> raises on a negative dimension. The element type of the
  result is that of the first sequence, so indexing an empty list of sequences raises
  before the tensor is allocated. The loop assigns \<^verbatim>\<open>padded[i, :length] = seq[:length]\<close>
  row by row.
\<close>

definition tensor_full :: "nat \<Rightarrow> nat \<Rightarrow> 'a \<Rightarrow> 'a list list" where
  "tensor_full rows cols v = replicate rows (replicate cols v)"

definition assign_prefix :: "'a list list \<Rightarrow> nat \<Rightarrow> 'a list \<Rightarrow> int \<Rightarrow> 'a list list" where
  "assign_prefix padded i seq max_length =
     (let len = nat (min (int (length seq)) max_length)
      in padded[i := take len seq @ drop len (padded ! i)])"

definition pad_sequences :: "'a list list \<Rightarrow> int \<Rightarrow> 'a \<Rightarrow> py_error + 'a list list" where
  "pad_sequences sequences max_length pad_value =
     (if sequences = [] then Inl (IndexError ''list index out of range'')
      else if max_length < 0
        then Inl (RuntimeError ''Trying to create tensor with negative dimension'')
      else Inr (fold (\<lambda>(i, seq) padded. assign_prefix padded i seq max_length)
                  (enumerate 0 sequences)
                  (tensor_full (length sequences) (nat max_length) pad_value)))"

section \<open>metadata\_builder\<close>

subsection \<open>dict\_to\_meta\_string\<close>

definition nl :: string where
  "nl = [CHR 0x0A]"

text \<open>
  The duration is reformatted first: a number through \<^verbatim>\<open>int\<close>, anything that is not a
  string to the default; then the four lines are written by one f-string.
\<close>

definition format_duration :: "pyval \<Rightarrow> py_error + pyval" where
  "format_duration duration =
     (if is_int_or_float duration
        then (case py_int duration of
                Inl e \<Rightarrow> Inl e
              | Inr n \<Rightarrow> Inr (PStr (str_int n @ '' seconds'')))
      else if \<not> is_str duration then Inr (PStr ''30 seconds'')
      else Inr duration)"

definition dict_to_meta_string ::
  "(pyval \<Rightarrow> string) \<Rightarrow> (string \<times> pyval) list \<Rightarrow> py_error + string" where
  "dict_to_meta_string other meta_dict =
     (let bpm = dict_get meta_dict ''bpm'' (dict_get meta_dict ''tempo'' (PStr ''N/A''));
          timesignature = dict_get meta_dict ''timesignature''
                            (dict_get meta_dict ''time_signature'' (PStr ''N/A''));
          keyscale = dict_get meta_dict ''keyscale''
                       (dict_get meta_dict ''key'' (dict_get meta_dict ''scale'' (PStr ''N/A'')));
          duration = dict_get meta_dict ''duration'' (dict_get meta_dict ''length'' (PInt 30))
      in case format_duration duration of
           Inl e \<Rightarrow> Inl e
         | Inr duration' \<Rightarrow>
             Inr (''- bpm: '' @ py_str other bpm @ nl
                @ ''- timesignature: '' @ py_str other timesignature @ nl
                @ ''- keyscale: '' @ py_str other keyscale @ nl
                @ ''- duration: '' @ py_str other duration' @ nl))"

subsection \<open>build\_metadata\_dict\<close>

text \<open>\<^verbatim>\<open>d[k] = v\<close>: replaces the value of an existing key, appends a new key.\<close>

definition dict_set :: "(string \<times> pyval) list \<Rightarrow> string \<Rightarrow> pyval \<Rightarrow> (string \<times> pyval) list" where
  "dict_set d k v =
     (if dict_contains d k then map (\<lambda>(k', v'). if k' = k then (k', v) else (k', v')) d
      else d @ [(k, v)])"

text \<open>
  \<^verbatim>\<open>int(s)\<close> on a string is the interpreter's parser: \<open>Some n\<close> when it returns \<open>n\<close>,
  \<open>None\<close> when it raises \<^verbatim>\<open>ValueError\<close>. It is the parameter \<open>int_str\<close> of
  \<open>build_metadata_dict\<close>. \<open>py_int_of_str\<close> is that parser on ASCII text: surrounding
  white space, an optional sign, decimal digits with single underscores between them.
\<close>

definition is_space :: "char \<Rightarrow> bool" where
  "is_space c = (let n = of_char c :: nat in (9 \<le> n \<and> n \<le> 13) \<or> n = 32)"

definition is_digit :: "char \<Rightarrow> bool" where
  "is_digit c = (let n = of_char c :: nat in 48 \<le> n \<and> n \<le> 57)"

definition digit_val :: "char \<Rightarrow> nat" where
  "digit_val c = of_char c - 48"

definition strip :: "string \<Rightarrow> string" where
  "strip s = rev (dropWhile is_space (rev (dropWhile is_space s)))"

fun parse_digits :: "nat \<Rightarrow> string \<Rightarrow> nat option" where
  "parse_digits acc [] = Some acc"
| "parse_digits acc [c] = (if is_digit c then Some (acc * 10 + digit_val c) else None)"
| "parse_digits acc (c # d # ds) =
     (if is_digit c then parse_digits (acc * 10 + digit_val c) (d # ds)
      else if c = CHR ''_'' \<and> is_digit d then parse_digits (acc * 10 + digit_val d) ds
      else None)"

definition parse_unsigned :: "string \<Rightarrow> nat option" where
  "parse_unsigned s =
     (case s of [] \<Rightarrow> None
      | d # ds \<Rightarrow> if is_digit d then parse_digits (digit_val d) ds else None)"

definition py_int_of_str :: "string \<Rightarrow> int option" where
  "py_int_of_str s =
     (case strip s of
        [] \<Rightarrow> None
      | c # cs \<Rightarrow>
          if c = CHR ''-'' then map_option (\<lambda>n. - int n) (parse_unsigned cs)
          else if c = CHR ''+'' then map_option int (parse_unsigned cs)
          else map_option int (parse_unsigned (c # cs)))"

definition build_metadata_dict ::
  "(string \<Rightarrow> int option) \<Rightarrow> pyval \<Rightarrow> pyval \<Rightarrow> pyval \<Rightarrow> pyval \<Rightarrow> (string \<times> pyval) list" where
  "build_metadata_dict int_str bpm key_scale time_signature duration =
     (let metadata = [];
          metadata = (if bpm \<noteq> PNone
                        then (case bpm of
                                PStr s \<Rightarrow> (case int_str s of
                                              Some n \<Rightarrow> dict_set metadata ''bpm'' (PInt n)
                                            | None \<Rightarrow> dict_set metadata ''bpm'' (PStr ''N/A''))
                              | _ \<Rightarrow> dict_set metadata ''bpm'' bpm)
                      else dict_set metadata ''bpm'' (PStr ''N/A''));
          metadata = dict_set metadata ''keyscale''
                       (if truthy key_scale then key_scale else PStr ''N/A'');
          metadata = dict_set metadata ''timesignature''
                       (if truthy time_signature then time_signature else PStr ''N/A'');
          metadata = (if duration \<noteq> PNone then dict_set metadata ''duration'' duration
                      else dict_set metadata ''duration'' (PInt 30))
      in metadata)"

subsection \<open>extract\_caption\_and\_language\<close>

text \<open>
  \<open>captions\<close> and \<open>vocal_languages\<close> are lists of strings; the entries of \<open>metas\<close> are
  tested with \<^verbatim>\<open>isinstance(meta, dict)\<close> and may be anything. One pass of the loop body
  appends one caption and one language.
\<close>

definition extract_step ::
  "string list \<Rightarrow> string list \<Rightarrow> nat \<times> pyval \<Rightarrow> pyval list \<times> pyval list
     \<Rightarrow> pyval list \<times> pyval list" where
  "extract_step captions vocal_languages im acc =
     (let i = fst im; meta = snd im;
          caption = (if i < length captions then PStr (captions ! i) else PStr '''');
          language = (if i < length vocal_languages then PStr (vocal_languages ! i)
                      else PStr ''none'');
          caption = (case meta of
                       PDict d \<Rightarrow> (case map_of d ''caption'' of
                                      Some v \<Rightarrow> if \<not> truthy caption then v else caption
                                    | None \<Rightarrow> caption)
                     | _ \<Rightarrow> caption);
          language = (case meta of
                        PDict d \<Rightarrow> (case map_of d ''language'' of
                                       Some v \<Rightarrow> if language = PStr ''none'' then v else language
                                     | None \<Rightarrow> language)
                      | _ \<Rightarrow> language)
      in (fst acc @ [caption], snd acc @ [language]))"

definition extract_caption_and_language ::
  "pyval list \<Rightarrow> string list \<Rightarrow> string list \<Rightarrow> pyval list \<times> pyval list" where
  "extract_caption_and_language metas captions vocal_languages =
     fold (extract_step captions vocal_languages) (enumerate 0 metas) ([], [])"

section \<open>Properties of audio\_utils\<close>

subsection \<open>Auxiliary facts\<close>

lemma fold_max_is_Max: "fold max xs (x::rat) = Max (set (x # xs))"
proof (induction xs arbitrary: x)
  case Nil
  then show ?case by simp
next
  case (Cons y ys)
  have "fold max (y # ys) x = fold max ys (max y x)" by simp
  also have "\<dots> = Max (set (max y x # ys))" by (rule Cons.IH)
  also have "\<dots> = Max (set (x # y # ys))"
    by (cases "ys = []") (auto simp: max.commute max.left_commute max.assoc)
  finally show ?case .
qed

lemma concat_tensor_abs: "concat (tensor_abs t) = map abs (concat t)"
  by (simp add: tensor_abs_def map_concat)

lemma tensor_max_nonempty:
  assumes "concat t \<noteq> []"
  shows "tensor_max t = Inr (Max (set (concat t)))"
proof -
  from assms obtain x xs where c: "concat t = x # xs" by (cases "concat t") auto
  then have "tensor_max t = Inr (fold max xs x)" by (simp add: tensor_max_def)
  also have "fold max xs x = Max (set (concat t))" using c fold_max_is_Max [of xs x] by simp
  finally show ?thesis .
qed

lemma tensor_repeat_2_1: "tensor_repeat 2 (Suc 0) t = t @ t"
  by (simp add: tensor_repeat_def numeral_2_eq_2)

lemma stereo_unfold:
  "normalize_audio_to_stereo_48k resample audio sr target_sr =
     (if length (if sr \<noteq> target_sr then resample audio sr target_sr else audio) = 1
        then (if sr \<noteq> target_sr then resample audio sr target_sr else audio)
           @ (if sr \<noteq> target_sr then resample audio sr target_sr else audio)
      else if length (if sr \<noteq> target_sr then resample audio sr target_sr else audio) > 2
        then take 2 (if sr \<noteq> target_sr then resample audio sr target_sr else audio)
      else (if sr \<noteq> target_sr then resample audio sr target_sr else audio))"
  by (simp add: normalize_audio_to_stereo_48k_def tensor_repeat_2_1 Let_def)

lemma stereo_channels_two_or_none:
  "length (normalize_audio_to_stereo_48k r a s t) = 2
     \<or> length (normalize_audio_to_stereo_48k r a s t) = 0"
proof -
  define a1 where "a1 = (if s \<noteq> t then r a s t else a)"
  have unf: "normalize_audio_to_stereo_48k r a s t =
     (if length a1 = 1 then a1 @ a1 else if length a1 > 2 then take 2 a1 else a1)"
    unfolding a1_def by (rule stereo_unfold)
  consider "length a1 = 0" | "length a1 = 1" | "length a1 = 2" | "length a1 > 2" by arith
  then show ?thesis
    by cases (simp_all add: unf)
qed

subsection \<open>C4: the silence check\<close>

lemma to_float32_examples:
  "to_float32 (Finite (7378697629483821 / 73786976294838206464))
     = Finite (13743895 / 137438953472)"
  "to_float32 (Finite (536870913 / 1073741824)) = Finite (1 / 2)"
  "to_float32 (Finite (3 / 4)) = Finite (3 / 4)"
  by code_simp+

lemma is_silence_max:
  assumes "concat audio \<noteq> []"
  shows "is_silence to_dtype audio threshold =
           Inr (float_less (Max (abs ` set (concat audio))) (to_dtype threshold))"
proof -
  have ne: "concat (tensor_abs audio) \<noteq> []" using assms by (simp add: concat_tensor_abs)
  have "tensor_max (tensor_abs audio) = Inr (Max (set (concat (tensor_abs audio))))"
    by (rule tensor_max_nonempty [OF ne])
  then have m: "tensor_max (tensor_abs audio) = Inr (Max (abs ` set (concat audio)))"
    by (simp add: concat_tensor_abs)
  show ?thesis by (simp add: is_silence_def m)
qed

text \<open>
  C4, as stated, compares the largest absolute sample with the threshold itself. The code
  compares it with the threshold converted to the element type of the buffer. The buffer
  of single-precision floats whose only sample is the float nearest to \<open>10\<^sup>-\<^sup>4\<close>,
  \<open>13743895 / 2\<^sup>3\<^sup>7\<close>, has its maximum strictly below the default threshold, the
  double nearest to \<open>10\<^sup>-\<^sup>4\<close>, and is not reported silent: the threshold is rounded
  down to that sample.
\<close>

theorem is_silence_float32_threshold_counterexample:
  "Max (abs ` set (concat [[13743895 / 137438953472 :: rat]]))
     < 7378697629483821 / 73786976294838206464
   \<and> is_silence to_float32 [[13743895 / 137438953472]]
         (Finite (7378697629483821 / 73786976294838206464)) = Inr False"
  by (simp add: is_silence_max to_float32_examples)

text \<open>
  C4, amended. On a buffer with at least one sample, \<open>is_silence\<close> returns true exactly
  when the largest absolute sample value is strictly below the threshold as converted to
  the element type of the buffer; when that maximum equals the converted threshold it
  returns false. Where the conversion leaves the threshold as it is (a buffer of doubles,
  or a threshold that the element type represents), this is the comparison with the
  threshold itself. (A buffer without samples has no maximum: the reduction raises.)
\<close>

theorem is_silence_iff_max_abs_below_converted_threshold:
  assumes "concat audio \<noteq> []" and "to_dtype threshold = Finite t"
  shows "is_silence to_dtype audio threshold = Inr (Max (abs ` set (concat audio)) < t)
       \<and> (Max (abs ` set (concat audio)) = t \<longrightarrow>
            is_silence to_dtype audio threshold = Inr False)
       \<and> (threshold = Finite t \<longrightarrow>
            is_silence to_dtype audio (Finite t) = Inr (Max (abs ` set (concat audio)) < t))"
proof -
  have a: "is_silence to_dtype audio threshold = Inr (Max (abs ` set (concat audio)) < t)"
    using assms(2) by (simp add: is_silence_max [OF assms(1)])
  then show ?thesis by auto
qed

theorem is_silence_iff_max_abs_below_converted_threshold_witness:
  "concat [[1 / 4, - 1 / 2], [0, 1 / 8 :: rat]] \<noteq> []
   \<and> to_float32 (Finite (536870913 / 1073741824)) = Finite (1 / 2)
   \<and> Max (abs ` set (concat [[1 / 4, - 1 / 2], [0, 1 / 8 :: rat]])) = 1 / 2
   \<and> is_silence to_float32 [[1 / 4, - 1 / 2], [0, 1 / 8]] (Finite (536870913 / 1073741824))
        = Inr False
   \<and> is_silence to_float32 [[1 / 4, - 1 / 2], [0, 1 / 8]] (Finite (3 / 4)) = Inr True
   \<and> is_silence (\<lambda>t. t) [[1 / 4, - 1 / 2], [0, 1 / 8]] (Finite (536870913 / 1073741824))
        = Inr True"
  using is_silence_iff_max_abs_below_converted_threshold
          [of "[[1 / 4, - 1 / 2], [0, 1 / 8]]" to_float32
              "Finite (536870913 / 1073741824)" "1 / 2"]
        is_silence_iff_max_abs_below_converted_threshold
          [of "[[1 / 4, - 1 / 2], [0, 1 / 8]]" to_float32 "Finite (3 / 4)" "3 / 4"]
        is_silence_iff_max_abs_below_converted_threshold
          [of "[[1 / 4, - 1 / 2], [0, 1 / 8]]" "\<lambda>t. t"
              "Finite (536870913 / 1073741824)" "536870913 / 1073741824"]
  by (simp add: to_float32_examples)

subsection \<open>C3: conversion to stereo\<close>

text \<open>
  C3, as stated, promises two channels for every buffer. A buffer with no channel at all
  (shape \<open>[0, samples]\<close>) meets neither test of the conversion and is returned as it is,
  with no channel.
\<close>

theorem stereo_zero_channels_counterexample:
  "length (normalize_audio_to_stereo_48k (\<lambda>a s t. a) [] 48000 48000) \<noteq> 2"
  by (simp add: stereo_unfold)

text \<open>
  C3, amended. Let the resampler, when it is called, keep the number of channels of this
  buffer, and let the buffer have at least one channel. Then the result has exactly two channels; they are
  taken from the buffer at the target rate (the resampled buffer when the rates differ,
  the buffer itself otherwise): one channel is duplicated, of more than two the first two
  are kept, and two channels are passed through unchanged.
\<close>

theorem stereo_channels:
  assumes pres: "sr \<noteq> target_sr \<Longrightarrow> length (resample audio sr target_sr) = length audio"
    and ch: "1 \<le> length audio"
  shows "length (normalize_audio_to_stereo_48k resample audio sr target_sr) = 2
     \<and> (length audio = 1 \<longrightarrow>
          normalize_audio_to_stereo_48k resample audio sr target_sr =
            [hd (if sr \<noteq> target_sr then resample audio sr target_sr else audio),
             hd (if sr \<noteq> target_sr then resample audio sr target_sr else audio)])
     \<and> (length audio > 2 \<longrightarrow>
          normalize_audio_to_stereo_48k resample audio sr target_sr =
            take 2 (if sr \<noteq> target_sr then resample audio sr target_sr else audio))
     \<and> (length audio = 2 \<longrightarrow>
          normalize_audio_to_stereo_48k resample audio sr target_sr =
            (if sr \<noteq> target_sr then resample audio sr target_sr else audio))"
proof -
  define a1 where "a1 = (if sr \<noteq> target_sr then resample audio sr target_sr else audio)"
  have len: "length a1 = length audio" using pres by (simp add: a1_def)
  have unf: "normalize_audio_to_stereo_48k resample audio sr target_sr =
     (if length a1 = 1 then a1 @ a1 else if length a1 > 2 then take 2 a1 else a1)"
    unfolding a1_def by (rule stereo_unfold)
  have two: "length (normalize_audio_to_stereo_48k resample audio sr target_sr) = 2"
    unfolding unf using len ch by auto
  have mono: "normalize_audio_to_stereo_48k resample audio sr target_sr = [hd a1, hd a1]"
    if "length audio = 1"
  proof -
    from that len have "length a1 = 1" by simp
    then obtain c where c: "a1 = [c]" by (cases a1) auto
    show ?thesis unfolding unf c by simp
  qed
  have many: "normalize_audio_to_stereo_48k resample audio sr target_sr = take 2 a1"
    if "length audio > 2"
    unfolding unf using that len by simp
  have same: "normalize_audio_to_stereo_48k resample audio sr target_sr = a1"
    if "length audio = 2"
    unfolding unf using that len by simp
  from two mono many same show ?thesis unfolding a1_def by blast
qed

theorem stereo_channels_witness:
  "length ((\<lambda>a s t. map (\<lambda>c. c @ c) a) [[1, 2 :: rat]] (24000 :: int) (48000 :: int))
     = length [[1, 2 :: rat]]
   \<and> 1 \<le> length [[1, 2 :: rat]]
   \<and> normalize_audio_to_stereo_48k (\<lambda>a s t. map (\<lambda>c. c @ c) a) [[1, 2]] 24000 48000
       = [[1, 2, 1, 2], [1, 2, 1, 2]]
   \<and> normalize_audio_to_stereo_48k (\<lambda>a s t. map (\<lambda>c. c @ c) a) [[1], [2], [3]] 48000 48000
       = [[1], [2]]
   \<and> normalize_audio_to_stereo_48k (\<lambda>a s t. map (\<lambda>c. c @ c) a) [[1], [2]] 48000 48000
       = [[1], [2]]"
  using stereo_channels [where resample = "\<lambda>a s t. map (\<lambda>c. c @ c) a" and audio = "[[1, 2]]"
                           and sr = 24000 and target_sr = 48000]
        stereo_channels [where resample = "\<lambda>a s t. map (\<lambda>c. c @ c) a"
                           and audio = "[[1], [2], [3]]" and sr = 48000 and target_sr = 48000]
        stereo_channels [where resample = "\<lambda>a s t. map (\<lambda>c. c @ c) a"
                           and audio = "[[1], [2]]" and sr = 48000 and target_sr = 48000]
  by simp

subsection \<open>C7: the conversion is idempotent\<close>

text \<open>
  C7. Converting the result of a conversion again, now with the source rate equal to the
  target rate, changes nothing: the result of the first conversion has two channels or
  none, and is not resampled again.
\<close>

theorem stereo_idempotent:
  "normalize_audio_to_stereo_48k resample
      (normalize_audio_to_stereo_48k resample audio sr target_sr) target_sr target_sr
   = normalize_audio_to_stereo_48k resample audio sr target_sr"
proof -
  let ?y = "normalize_audio_to_stereo_48k resample audio sr target_sr"
  have "length ?y = 2 \<or> length ?y = 0" by (rule stereo_channels_two_or_none)
  then have "length ?y \<noteq> 1" and "\<not> length ?y > 2" by auto
  then show ?thesis
    unfolding stereo_unfold [of resample ?y target_sr target_sr] by simp
qed

theorem stereo_idempotent_witness:
  "normalize_audio_to_stereo_48k (\<lambda>a s t. map (\<lambda>c. c @ c) a)
      (normalize_audio_to_stereo_48k (\<lambda>a s t. map (\<lambda>c. c @ c) a) [[1, 2]] 24000 48000)
      48000 48000
   = [[1, 2, 1, 2], [1, 2, 1, 2]]"
  using stereo_idempotent [of "\<lambda>a s t. map (\<lambda>c. c @ c) a" "[[1, 2]]" 24000 48000]
  by (simp add: stereo_unfold)

section \<open>Properties of the batch normalizers\<close>

lemma list_times_single: "list_times [x] n = replicate (nat n) x"
  by (induction "nat n" arbitrary: n) (simp_all add: list_times_def)

lemma length_list_times_single: "0 \<le> n \<Longrightarrow> int (length (list_times [x] n)) = n"
  by (simp add: list_times_single)

lemma list_times_one: "list_times xs 1 = xs"
  by (simp add: list_times_def)

lemma list_times_nil: "list_times [] n = []"
  by (simp add: list_times_def)

lemma hints_result_length:
  assumes "0 \<le> n" and "normalize_audio_code_hints x n = Inr ys"
  shows "int (length ys) = n"
proof (cases x)
  case (PList xs)
  show ?thesis
  proof (cases xs)
    case Nil
    with PList assms show ?thesis by (auto simp: list_times_single)
  next
    case (Cons v vs)
    show ?thesis
    proof (cases vs)
      case Nil
      with Cons PList assms show ?thesis by (auto simp: list_times_single)
    next
      case (Cons w ws)
      with \<open>xs = v # vs\<close> PList assms show ?thesis by (auto split: if_splits)
    qed
  qed
qed (use assms in \<open>auto simp: list_times_single\<close>)

lemma hints_full_list:
  assumes "int (length xs) = n"
  shows "normalize_audio_code_hints (PList xs) n = Inr xs"
proof (cases xs)
  case Nil
  with assms show ?thesis by (simp add: list_times_def)
next
  case (Cons v vs)
  show ?thesis
  proof (cases vs)
    case Nil
    with Cons assms have "n = 1" by simp
    with Cons Nil show ?thesis by (simp add: list_times_one)
  next
    case (Cons w ws)
    with \<open>xs = v # vs\<close> assms show ?thesis by simp
  qed
qed

lemma hints_type_error:
  assumes "x \<noteq> PNone" and "\<not> is_str x" and "\<not> is_list x"
  shows "normalize_audio_code_hints x n =
           Inl (TypeError (''audio_code_hints must be str, list, or None, got '' @ type_repr x))"
  using assms by (cases x) simp_all

subsection \<open>C2: normalize\_audio\_code\_hints\<close>

text \<open>
  C2. For a batch size \<open>N\<close> (a count, so \<open>0 \<le> N\<close>) and every value \<open>x\<close>,
  \<open>normalize_audio_code_hints\<close> returns a list of exactly \<open>N\<close> entries or raises.
  \<^verbatim>\<open>None\<close> and the empty list give \<open>N\<close> times \<^verbatim>\<open>None\<close>; a string and a list of one
  element give that element \<open>N\<close> times; a list of exactly \<open>N\<close> entries is returned
  unchanged; a list of any other length raises \<^verbatim>\<open>ValueError\<close> with a message holding
  that length and \<open>N\<close>; a value that is not \<^verbatim>\<open>None\<close>, a string or a list raises
  \<^verbatim>\<open>TypeError\<close>.
\<close>

theorem normalize_audio_code_hints_contract:
  assumes "0 \<le> N"
  shows "(case normalize_audio_code_hints x N of
            Inr ys \<Rightarrow> int (length ys) = N
          | Inl e \<Rightarrow> kind_of e = KValue \<or> kind_of e = KType)
       \<and> normalize_audio_code_hints PNone N = Inr (replicate (nat N) PNone)
       \<and> normalize_audio_code_hints (PList []) N = Inr (replicate (nat N) PNone)
       \<and> normalize_audio_code_hints (PStr s) N = Inr (replicate (nat N) (PStr s))
       \<and> normalize_audio_code_hints (PList [v]) N = Inr (replicate (nat N) v)
       \<and> (int (length xs) = N \<longrightarrow> normalize_audio_code_hints (PList xs) N = Inr xs)
       \<and> (length xs \<noteq> 0 \<and> length xs \<noteq> 1 \<and> int (length xs) \<noteq> N \<longrightarrow>
            normalize_audio_code_hints (PList xs) N =
              Inl (ValueError (''audio_code_hints length ('' @ str_int (int (length xs))
                     @ '') must be 1 or match batch_size ('' @ str_int N @ '')'')))
       \<and> (x \<noteq> PNone \<and> \<not> is_str x \<and> \<not> is_list x \<longrightarrow>
            (\<exists>m. normalize_audio_code_hints x N = Inl (TypeError m)))"
proof -
  have len: "case normalize_audio_code_hints x N of
               Inr ys \<Rightarrow> int (length ys) = N
             | Inl e \<Rightarrow> kind_of e = KValue \<or> kind_of e = KType"
  proof (cases "normalize_audio_code_hints x N")
    case (Inr ys)
    with hints_result_length [OF assms Inr] show ?thesis by simp
  next
    case (Inl e)
    then have "kind_of e = KValue \<or> kind_of e = KType"
      by (cases x) (auto split: if_splits)
    with Inl show ?thesis by simp
  qed
  have none: "normalize_audio_code_hints PNone N = Inr (replicate (nat N) PNone)"
    by (simp add: list_times_single)
  have empty: "normalize_audio_code_hints (PList []) N = Inr (replicate (nat N) PNone)"
    by (simp add: list_times_single)
  have str: "normalize_audio_code_hints (PStr s) N = Inr (replicate (nat N) (PStr s))"
    by (simp add: list_times_single)
  have one: "normalize_audio_code_hints (PList [v]) N = Inr (replicate (nat N) v)"
    by (simp add: list_times_single)
  have full: "int (length xs) = N \<longrightarrow> normalize_audio_code_hints (PList xs) N = Inr xs"
    using hints_full_list by blast
  have bad: "length xs \<noteq> 0 \<and> length xs \<noteq> 1 \<and> int (length xs) \<noteq> N \<longrightarrow>
            normalize_audio_code_hints (PList xs) N =
              Inl (ValueError (''audio_code_hints length ('' @ str_int (int (length xs))
                     @ '') must be 1 or match batch_size ('' @ str_int N @ '')''))"
    by (simp add: length_mismatch_message_def)
  have ty: "x \<noteq> PNone \<and> \<not> is_str x \<and> \<not> is_list x \<longrightarrow>
            (\<exists>m. normalize_audio_code_hints x N = Inl (TypeError m))"
    using hints_type_error by blast
  from len none empty str one full bad ty show ?thesis by blast
qed

lemma str_int_2: "str_int 2 = ''2''"
  by code_simp

lemma str_int_3: "str_int 3 = ''3''"
  by code_simp

theorem normalize_audio_code_hints_contract_witness:
  "(0::int) \<le> 2
   \<and> normalize_audio_code_hints PNone 2 = Inr [PNone, PNone]
   \<and> normalize_audio_code_hints (PStr ''a'') 2 = Inr [PStr ''a'', PStr ''a'']
   \<and> normalize_audio_code_hints (PList [PStr ''b'']) 2 = Inr [PStr ''b'', PStr ''b'']
   \<and> normalize_audio_code_hints (PList [PStr ''a'', PStr ''b'']) 2 = Inr [PStr ''a'', PStr ''b'']
   \<and> normalize_audio_code_hints (PList [PStr ''a'', PStr ''b'', PStr ''c'']) 2 =
         Inl (ValueError ''audio_code_hints length (3) must be 1 or match batch_size (2)'')
   \<and> (\<exists>m. normalize_audio_code_hints (PObj ''torch.Tensor'') 2 = Inl (TypeError m))"
  using normalize_audio_code_hints_contract
          [where N = 2 and x = "PObj ''torch.Tensor''" and s = "''a''" and v = "PStr ''b''"
             and xs = "[PStr ''a'', PStr ''b'', PStr ''c'']"]
        normalize_audio_code_hints_contract
          [where N = 2 and x = PNone and s = "''a''" and v = "PStr ''b''"
             and xs = "[PStr ''a'', PStr ''b'']"]
  by (simp add: str_int_2 str_int_3 numeral_2_eq_2)

subsection \<open>C6: normalize\_instructions\<close>

text \<open>
  C6. On a value other than \<^verbatim>\<open>None\<close> and the empty list, \<open>normalize_instructions\<close>
  expands as \<open>normalize_audio_code_hints\<close> does: the same list on success, an error of
  the same kind otherwise. On \<^verbatim>\<open>None\<close> and on the empty list it returns the default
  repeated \<open>batch_size\<close> times, and raises \<^verbatim>\<open>ValueError\<close> when the default is
  \<^verbatim>\<open>None\<close> too.
\<close>

theorem normalize_instructions_contract:
  "(x \<noteq> PNone \<and> x \<noteq> PList [] \<longrightarrow>
      map_sum kind_of id (normalize_instructions x N d)
        = map_sum kind_of id (normalize_audio_code_hints x N))
   \<and> (x = PNone \<or> x = PList [] \<longrightarrow> d \<noteq> PNone \<longrightarrow>
        normalize_instructions x N d = Inr (replicate (nat N) d))
   \<and> (x = PNone \<or> x = PList [] \<longrightarrow> d = PNone \<longrightarrow>
        (\<exists>m. normalize_instructions x N d = Inl (ValueError m)))"
proof -
  have same: "map_sum kind_of id (normalize_instructions x N d)
                = map_sum kind_of id (normalize_audio_code_hints x N)"
    if "x \<noteq> PNone" and "x \<noteq> PList []"
    using that by (cases x) simp_all
  have dflt: "normalize_instructions x N d = Inr (replicate (nat N) d)"
    if "x = PNone \<or> x = PList []" and "d \<noteq> PNone"
    using that by (auto simp: list_times_single)
  have absent: "\<exists>m. normalize_instructions x N d = Inl (ValueError m)"
    if "x = PNone \<or> x = PList []" and "d = PNone"
    using that by auto
  from same dflt absent show ?thesis by blast
qed

theorem normalize_instructions_contract_witness:
  "normalize_instructions PNone 2 (PStr ''go'') = Inr [PStr ''go'', PStr ''go'']
   \<and> normalize_instructions (PList []) 2 (PStr ''go'') = Inr [PStr ''go'', PStr ''go'']
   \<and> (\<exists>m. normalize_instructions PNone 2 PNone = Inl (ValueError m))
   \<and> (\<exists>m. normalize_instructions (PList []) 2 PNone = Inl (ValueError m))
   \<and> map_sum kind_of id (normalize_instructions (PList [PStr ''a'', PStr ''b'', PStr ''c'']) 2 PNone)
        = Inl KValue
   \<and> normalize_instructions (PList [PStr ''b'']) 2 PNone = Inr [PStr ''b'', PStr ''b'']"
  using normalize_instructions_contract [of PNone 2 "PStr ''go''"]
        normalize_instructions_contract [of "PList []" 2 "PStr ''go''"]
        normalize_instructions_contract [of PNone 2 PNone]
        normalize_instructions_contract [of "PList []" 2 PNone]
        normalize_instructions_contract [of "PList [PStr ''a'', PStr ''b'', PStr ''c'']" 2 PNone]
        normalize_instructions_contract [of "PList [PStr ''b'']" 2 PNone]
  by (simp add: numeral_2_eq_2 list_times_single)

section \<open>Properties of pad\_sequences\<close>

lemma assign_prefix_fresh_row:
  assumes "0 \<le> M" and "padded ! i = replicate (nat M) pad"
  shows "assign_prefix padded i seq M =
           padded[i := take (nat M) seq @ replicate (nat M - length seq) pad]"
proof -
  define len where "len = nat (min (int (length seq)) M)"
  have len: "len = min (length seq) (nat M)"
    unfolding len_def using assms(1) by linarith
  have "take len seq = take (nat M) seq" by (simp add: len min_def)
  moreover have "drop len (replicate (nat M) pad) = replicate (nat M - length seq) pad"
    by (simp add: len min_def)
  ultimately show ?thesis
    using assms(2) by (simp add: assign_prefix_def Let_def len_def [symmetric])
qed

lemma pad_loop_invariant:
  assumes "0 \<le> M"
    and "k + length seqs \<le> length P"
    and "\<forall>j. k \<le> j \<and> j < k + length seqs \<longrightarrow> P ! j = replicate (nat M) pad"
  shows "fold (\<lambda>(i, seq) padded. assign_prefix padded i seq M) (enumerate k seqs) P =
           take k P @ map (\<lambda>s. take (nat M) s @ replicate (nat M - length s) pad) seqs
             @ drop (k + length seqs) P"
  using assms(2,3)
proof (induction seqs arbitrary: k P)
  case Nil
  then show ?case by simp
next
  case (Cons s ss)
  let ?row = "\<lambda>s. take (nat M) s @ replicate (nat M - length s) pad"
  define P' where "P' = P[k := ?row s]"
  have kP: "k < length P" using Cons.prems(1) by simp
  have Pk: "P ! k = replicate (nat M) pad" using Cons.prems(2) by simp
  have step: "assign_prefix P k s M = P'"
    unfolding P'_def by (rule assign_prefix_fresh_row [OF assms(1) Pk])
  have len': "Suc k + length ss \<le> length P'" using Cons.prems(1) by (simp add: P'_def)
  have fresh': "\<forall>j. Suc k \<le> j \<and> j < Suc k + length ss \<longrightarrow> P' ! j = replicate (nat M) pad"
    using Cons.prems(2) by (simp add: P'_def)
  have "fold (\<lambda>(i, seq) padded. assign_prefix padded i seq M) (enumerate k (s # ss)) P =
        fold (\<lambda>(i, seq) padded. assign_prefix padded i seq M) (enumerate (Suc k) ss) P'"
    by (simp add: step)
  also have "\<dots> = take (Suc k) P' @ map ?row ss @ drop (Suc k + length ss) P'"
    by (rule Cons.IH [OF len' fresh'])
  also have "take (Suc k) P' = take k P @ [?row s]"
    using kP by (simp add: P'_def take_Suc_conv_app_nth)
  also have "drop (Suc k + length ss) P' = drop (k + length (s # ss)) P"
    by (simp add: P'_def)
  finally show ?case by simp
qed

lemma pad_sequences_closed_form:
  assumes "sequences \<noteq> []" and "0 \<le> max_length"
  shows "pad_sequences sequences max_length pad_value =
           Inr (map (\<lambda>s. take (nat max_length) s @ replicate (nat max_length - length s) pad_value)
                  sequences)"
proof -
  let ?P = "tensor_full (length sequences) (nat max_length) pad_value"
  have "fold (\<lambda>(i, seq) padded. assign_prefix padded i seq max_length) (enumerate 0 sequences) ?P =
          take 0 ?P @ map (\<lambda>s. take (nat max_length) s @ replicate (nat max_length - length s) pad_value)
             sequences @ drop (0 + length sequences) ?P"
    by (rule pad_loop_invariant [OF assms(2)]) (simp_all add: tensor_full_def)
  then show ?thesis using assms by (simp add: pad_sequences_def tensor_full_def)
qed

subsection \<open>C5: shape and contents of the padded array\<close>

text \<open>
  C5. For a non-empty list of sequences and a length \<open>max_length\<close> (\<open>0 \<le> max_length\<close>),
  \<open>pad_sequences\<close> returns an array with one row per sequence, every row of length
  \<open>max_length\<close>; row \<open>i\<close> holds the first \<open>min (len sequence_i) max_length\<close> elements
  of sequence \<open>i\<close> and \<open>pad_value\<close> after them, so a longer sequence is cut and never
  extends the row. In particular
  \<^verbatim>\<open>pad_sequences([[1,2,3],[4,5]], max_length=4, pad_value=0)\<close> is
  \<^verbatim>\<open>[[1,2,3,0],[4,5,0,0]]\<close>.
\<close>

theorem pad_sequences_shape_and_rows:
  assumes "sequences \<noteq> []" and "0 \<le> max_length"
  shows "(\<exists>padded. pad_sequences sequences max_length pad_value = Inr padded
            \<and> length padded = length sequences
            \<and> (\<forall>i < length sequences.
                 length (padded ! i) = nat max_length
                 \<and> (\<forall>j < nat max_length.
                      padded ! i ! j =
                        (if j < min (length (sequences ! i)) (nat max_length)
                         then sequences ! i ! j else pad_value))))
       \<and> pad_sequences [[1, 2, 3], [4, 5]] 4 (0::int) = Inr [[1, 2, 3, 0], [4, 5, 0, 0]]"
proof -
  let ?row = "\<lambda>s. take (nat max_length) s @ replicate (nat max_length - length s) pad_value"
  have cf: "pad_sequences sequences max_length pad_value = Inr (map ?row sequences)"
    by (rule pad_sequences_closed_form [OF assms])
  have rows: "length (map ?row sequences ! i) = nat max_length
                \<and> (\<forall>j < nat max_length.
                      map ?row sequences ! i ! j =
                        (if j < min (length (sequences ! i)) (nat max_length)
                         then sequences ! i ! j else pad_value))"
    if "i < length sequences" for i
    using that by (auto simp: nth_append min_def)
  have ex: "pad_sequences [[1, 2, 3], [4, 5]] 4 (0::int) = Inr [[1, 2, 3, 0], [4, 5, 0, 0]]"
    by (simp add: pad_sequences_closed_form numeral_eq_Suc)
  from cf rows ex show ?thesis by simp
qed

theorem pad_sequences_shape_and_rows_witness:
  "[[7, 8, 9], [6 :: int]] \<noteq> [] \<and> (0::int) \<le> 2
   \<and> pad_sequences [[7, 8, 9], [6 :: int]] 2 5 = Inr [[7, 8], [6, 5]]"
proof -
  have ne: "[[7, 8, 9], [6 :: int]] \<noteq> []" by simp
  have nn: "(0::int) \<le> 2" by simp
  from pad_sequences_shape_and_rows [OF ne nn, of 5]
  obtain padded where p: "pad_sequences [[7, 8, 9], [6 :: int]] 2 5 = Inr padded"
    and l: "length padded = 2"
    and r: "\<forall>i < 2. length (padded ! i) = 2
              \<and> (\<forall>j < 2. padded ! i ! j =
                     (if j < min (length ([[7, 8, 9], [6 :: int]] ! i)) 2
                      then [[7, 8, 9], [6]] ! i ! j else 5))"
    by auto
  have "padded = [[7, 8], [6, 5]]"
  proof (rule nth_equalityI)
    show "length padded = length [[7, 8], [6, 5 :: int]]" using l by simp
  next
    fix i assume "i < length padded"
    then have i: "i = 0 \<or> i = 1" using l by auto
    have r0: "length (padded ! 0) = 2" "padded ! 0 ! 0 = 7" "padded ! 0 ! 1 = 8"
      using r [rule_format, of 0] by auto
    have r1: "length (padded ! 1) = 2" "padded ! 1 ! 0 = 6" "padded ! 1 ! 1 = 5"
      using r [rule_format, of 1] by auto
    have "padded ! 0 = [7, 8]"
      by (rule nth_equalityI) (use r0 in \<open>auto simp: less_Suc_eq numeral_2_eq_2\<close>)
    moreover have "padded ! 1 = [6, 5]"
      by (rule nth_equalityI) (use r1 in \<open>auto simp: less_Suc_eq numeral_2_eq_2\<close>)
    ultimately show "padded ! i = [[7, 8], [6, 5]] ! i" using i by auto
  qed
  with p ne nn show ?thesis by simp
qed

section \<open>Properties of metadata\_builder\<close>

lemma str_int_30: "str_int 30 = ''30''"
  by code_simp

lemma str_int_120: "str_int 120 = ''120''"
  by code_simp

lemma str_int_minus_30: "str_int (- 30) = ''-30''"
  by code_simp

lemma trunc_rat_example: "trunc_rat (- (61 / 2)) = - 30"
  by code_simp

lemma format_duration_number:
  "format_duration (PInt i) = Inr (PStr (str_int i @ '' seconds''))"
  "format_duration (PBool b) = Inr (PStr (str_int (if b then 1 else 0) @ '' seconds''))"
  "format_duration (PFloat (Finite r)) = Inr (PStr (str_int (trunc_rat r) @ '' seconds''))"
  by (simp_all add: format_duration_def)

lemma format_duration_string: "format_duration (PStr s) = Inr (PStr s)"
  by (simp add: format_duration_def)

lemma format_duration_default:
  "\<not> is_int_or_float v \<Longrightarrow> \<not> is_str v \<Longrightarrow> format_duration v = Inr (PStr ''30 seconds'')"
  by (simp add: format_duration_def)

lemma format_duration_text:
  assumes "dur \<noteq> PFloat PosInf" and "dur \<noteq> PFloat NegInf" and "dur \<noteq> PFloat NaN"
  shows "format_duration dur =
           Inr (PStr (case dur of
                        PBool b \<Rightarrow> str_int (if b then 1 else 0) @ '' seconds''
                      | PInt i \<Rightarrow> str_int i @ '' seconds''
                      | PFloat f \<Rightarrow> (case f of Finite r \<Rightarrow> str_int (trunc_rat r) @ '' seconds''
                                                | _ \<Rightarrow> ''30 seconds'')
                      | PStr s \<Rightarrow> s
                      | _ \<Rightarrow> ''30 seconds''))"
proof (cases dur)
  case (PFloat f)
  with assms show ?thesis by (cases f) (simp_all add: format_duration_number)
qed (simp_all add: format_duration_number format_duration_string format_duration_default)

subsection \<open>C1: the four lines of dict\_to\_meta\_string\<close>

text \<open>
  C1, as stated, promises the four lines for every mapping. A duration that is an
  infinite float has no integer part: \<^verbatim>\<open>int(float("inf"))\<close> raises, and so does the
  formatter.
\<close>

theorem dict_to_meta_string_infinite_duration_counterexample:
  "dict_to_meta_string (\<lambda>v. '''') [(''bpm'', PInt 120), (''duration'', PFloat PosInf)]
     = Inl (OverflowError ''cannot convert float infinity to integer'')"
  by (simp add: dict_to_meta_string_def dict_get_def format_duration_def)

text \<open>
  C1, amended. Let every field be resolved by key presence along its chain
  (\<open>bpm\<close>, \<open>tempo\<close>, \<open>N/A\<close>; \<open>timesignature\<close>, \<open>time_signature\<close>, \<open>N/A\<close>;
  \<open>keyscale\<close>, \<open>key\<close>, \<open>scale\<close>, \<open>N/A\<close>; \<open>duration\<close>, \<open>length\<close>, \<open>30\<close>). Whenever the
  resolved duration is not an infinite or NaN float, the result is exactly the four
  newline-terminated lines for bpm, timesignature, keyscale and duration in this order,
  and a duration that is a number (an integer, a boolean, a finite float) is written as
  its integer part, truncated towards zero, followed by \<open>seconds\<close>. In particular the
  mapping with bpm 120, timesignature 4/4, keyscale C major and duration 30 gives the
  text of the specification.
\<close>

theorem dict_to_meta_string_lines:
  "(let bpm = (case map_of meta_dict ''bpm'' of Some v \<Rightarrow> v
               | None \<Rightarrow> (case map_of meta_dict ''tempo'' of Some v \<Rightarrow> v
                          | None \<Rightarrow> PStr ''N/A''));
        timesignature = (case map_of meta_dict ''timesignature'' of Some v \<Rightarrow> v
               | None \<Rightarrow> (case map_of meta_dict ''time_signature'' of Some v \<Rightarrow> v
                          | None \<Rightarrow> PStr ''N/A''));
        keyscale = (case map_of meta_dict ''keyscale'' of Some v \<Rightarrow> v
               | None \<Rightarrow> (case map_of meta_dict ''key'' of Some v \<Rightarrow> v
                          | None \<Rightarrow> (case map_of meta_dict ''scale'' of Some v \<Rightarrow> v
                                     | None \<Rightarrow> PStr ''N/A'')));
        duration = (case map_of meta_dict ''duration'' of Some v \<Rightarrow> v
               | None \<Rightarrow> (case map_of meta_dict ''length'' of Some v \<Rightarrow> v
                          | None \<Rightarrow> PInt 30))
    in duration \<noteq> PFloat PosInf \<and> duration \<noteq> PFloat NegInf \<and> duration \<noteq> PFloat NaN \<longrightarrow>
       dict_to_meta_string other meta_dict =
         Inr (''- bpm: '' @ py_str other bpm @ ''\<newline>''
            @ ''- timesignature: '' @ py_str other timesignature @ ''\<newline>''
            @ ''- keyscale: '' @ py_str other keyscale @ ''\<newline>''
            @ ''- duration: ''
            @ (case duration of
                 PBool b \<Rightarrow> str_int (if b then 1 else 0) @ '' seconds''
               | PInt i \<Rightarrow> str_int i @ '' seconds''
               | PFloat f \<Rightarrow> (case f of Finite r \<Rightarrow> str_int (trunc_rat r) @ '' seconds''
                                         | _ \<Rightarrow> ''30 seconds'')
               | PStr s \<Rightarrow> s
               | _ \<Rightarrow> ''30 seconds'')
            @ ''\<newline>''))
   \<and> dict_to_meta_string other
         [(''bpm'', PInt 120), (''timesignature'', PStr ''4/4''),
          (''keyscale'', PStr ''C major''), (''duration'', PInt 30)]
       = Inr ''- bpm: 120\<newline>- timesignature: 4/4\<newline>- keyscale: C major\<newline>- duration: 30 seconds\<newline>''"
proof -
  define duration where "duration = dict_get meta_dict ''duration'' (dict_get meta_dict ''length'' (PInt 30))"
  have gen: "dict_to_meta_string other meta_dict =
         Inr (''- bpm: '' @ py_str other (dict_get meta_dict ''bpm'' (dict_get meta_dict ''tempo'' (PStr ''N/A''))) @ ''\<newline>''
            @ ''- timesignature: '' @ py_str other (dict_get meta_dict ''timesignature''
                            (dict_get meta_dict ''time_signature'' (PStr ''N/A''))) @ ''\<newline>''
            @ ''- keyscale: '' @ py_str other (dict_get meta_dict ''keyscale''
                       (dict_get meta_dict ''key'' (dict_get meta_dict ''scale'' (PStr ''N/A'')))) @ ''\<newline>''
            @ ''- duration: ''
            @ (case duration of
                 PBool b \<Rightarrow> str_int (if b then 1 else 0) @ '' seconds''
               | PInt i \<Rightarrow> str_int i @ '' seconds''
               | PFloat f \<Rightarrow> (case f of Finite r \<Rightarrow> str_int (trunc_rat r) @ '' seconds''
                                         | _ \<Rightarrow> ''30 seconds'')
               | PStr s \<Rightarrow> s
               | _ \<Rightarrow> ''30 seconds'')
            @ ''\<newline>'')"
    if "duration \<noteq> PFloat PosInf" "duration \<noteq> PFloat NegInf" "duration \<noteq> PFloat NaN"
    unfolding dict_to_meta_string_def Let_def duration_def [symmetric]
    by (simp add: format_duration_text [OF that] nl_def)
  have ex: "dict_to_meta_string other
         [(''bpm'', PInt 120), (''timesignature'', PStr ''4/4''),
          (''keyscale'', PStr ''C major''), (''duration'', PInt 30)]
       = Inr ''- bpm: 120\<newline>- timesignature: 4/4\<newline>- keyscale: C major\<newline>- duration: 30 seconds\<newline>''"
    by (simp add: dict_to_meta_string_def dict_get_def format_duration_number nl_def
          str_int_30 str_int_120)
  from gen ex show ?thesis
    unfolding duration_def dict_get_def Let_def by blast
qed

theorem dict_to_meta_string_lines_witness:
  "dict_to_meta_string (\<lambda>v. ''?'')
       [(''tempo'', PInt 120), (''key'', PStr ''C major''), (''scale'', PStr ''minor''),
        (''length'', PFloat (Finite (- 61 / 2)))]
     = Inr ''- bpm: 120\<newline>- timesignature: N/A\<newline>- keyscale: C major\<newline>- duration: -30 seconds\<newline>''"
  using dict_to_meta_string_lines
          [of "[(''tempo'', PInt 120), (''key'', PStr ''C major''), (''scale'', PStr ''minor''),
                (''length'', PFloat (Finite (- 61 / 2)))]" "\<lambda>v. ''?''"]
  by (simp add: str_int_120 str_int_minus_30 trunc_rat_example Let_def)

subsection \<open>C10: a duration that is a string\<close>

text \<open>
  C10. When the resolved duration (\<open>duration\<close>, else \<open>length\<close>, else \<open>30\<close>) is a string
  \<open>s\<close>, the last line is \<open>- duration: s\<close> with nothing appended and no replacement by the
  default. The default \<open>30 seconds\<close> is written exactly for the values that are neither a
  string nor a number; a number is written through \<^verbatim>\<open>int\<close>.
\<close>

theorem dict_to_meta_string_string_duration:
  "(let duration = (case map_of meta_dict ''duration'' of Some v \<Rightarrow> v
               | None \<Rightarrow> (case map_of meta_dict ''length'' of Some v \<Rightarrow> v
                          | None \<Rightarrow> PInt 30));
        head_lines =
           ''- bpm: '' @ py_str other (dict_get meta_dict ''bpm''
                            (dict_get meta_dict ''tempo'' (PStr ''N/A''))) @ ''\<newline>''
         @ ''- timesignature: '' @ py_str other (dict_get meta_dict ''timesignature''
                            (dict_get meta_dict ''time_signature'' (PStr ''N/A''))) @ ''\<newline>''
         @ ''- keyscale: '' @ py_str other (dict_get meta_dict ''keyscale''
                            (dict_get meta_dict ''key''
                               (dict_get meta_dict ''scale'' (PStr ''N/A'')))) @ ''\<newline>''
    in (\<forall>s. duration = PStr s \<longrightarrow>
          dict_to_meta_string other meta_dict =
            Inr (head_lines @ ''- duration: '' @ s @ ''\<newline>''))
     \<and> (\<not> is_str duration \<and> \<not> is_int_or_float duration \<longrightarrow>
          dict_to_meta_string other meta_dict =
            Inr (head_lines @ ''- duration: 30 seconds\<newline>''))
     \<and> (\<forall>n. is_int_or_float duration \<and> py_int duration = Inr n \<longrightarrow>
          dict_to_meta_string other meta_dict =
            Inr (head_lines @ ''- duration: '' @ str_int n @ '' seconds\<newline>'')))"
proof -
  define duration where "duration = dict_get meta_dict ''duration'' (dict_get meta_dict ''length'' (PInt 30))"
  define head_lines where "head_lines =
           ''- bpm: '' @ py_str other (dict_get meta_dict ''bpm''
                            (dict_get meta_dict ''tempo'' (PStr ''N/A''))) @ ''\<newline>''
         @ ''- timesignature: '' @ py_str other (dict_get meta_dict ''timesignature''
                            (dict_get meta_dict ''time_signature'' (PStr ''N/A''))) @ ''\<newline>''
         @ ''- keyscale: '' @ py_str other (dict_get meta_dict ''keyscale''
                            (dict_get meta_dict ''key''
                               (dict_get meta_dict ''scale'' (PStr ''N/A'')))) @ ''\<newline>''"
  have out: "dict_to_meta_string other meta_dict =
      (case format_duration duration of Inl e \<Rightarrow> Inl e
       | Inr d \<Rightarrow> Inr (head_lines @ ''- duration: '' @ py_str other d @ ''\<newline>''))"
    unfolding dict_to_meta_string_def Let_def duration_def [symmetric] head_lines_def
    by (simp add: nl_def split: sum.splits)
  have str: "dict_to_meta_string other meta_dict =
            Inr (head_lines @ ''- duration: '' @ s @ ''\<newline>'')" if "duration = PStr s" for s
    using that by (simp add: out format_duration_string)
  have dflt: "dict_to_meta_string other meta_dict =
            Inr (head_lines @ ''- duration: 30 seconds\<newline>'')"
    if "\<not> is_str duration" "\<not> is_int_or_float duration"
    using that by (simp add: out format_duration_default)
  have num: "dict_to_meta_string other meta_dict =
            Inr (head_lines @ ''- duration: '' @ str_int n @ '' seconds\<newline>'')"
    if "is_int_or_float duration" "py_int duration = Inr n" for n
    using that by (simp add: out format_duration_def)
  from str dflt num show ?thesis
    unfolding Let_def duration_def head_lines_def dict_get_def [of meta_dict "''duration''"]
      dict_get_def [of meta_dict "''length''"]
    by blast
qed

theorem dict_to_meta_string_string_duration_witness:
  "dict_to_meta_string (\<lambda>v. ''?'') [(''bpm'', PInt 120), (''length'', PStr ''2 minutes'')]
     = Inr ''- bpm: 120\<newline>- timesignature: N/A\<newline>- keyscale: N/A\<newline>- duration: 2 minutes\<newline>''
   \<and> dict_to_meta_string (\<lambda>v. ''?'') [(''bpm'', PInt 120), (''duration'', PNone)]
     = Inr ''- bpm: 120\<newline>- timesignature: N/A\<newline>- keyscale: N/A\<newline>- duration: 30 seconds\<newline>''
   \<and> dict_to_meta_string (\<lambda>v. ''?'') [(''bpm'', PInt 120), (''duration'', PBool True)]
     = Inr ''- bpm: 120\<newline>- timesignature: N/A\<newline>- keyscale: N/A\<newline>- duration: 1 seconds\<newline>''"
proof -
  have one: "str_int 1 = ''1''" by code_simp
  show ?thesis
    using dict_to_meta_string_string_duration
            [of "[(''bpm'', PInt 120), (''length'', PStr ''2 minutes'')]" "\<lambda>v. ''?''"]
          dict_to_meta_string_string_duration
            [of "[(''bpm'', PInt 120), (''duration'', PNone)]" "\<lambda>v. ''?''"]
          dict_to_meta_string_string_duration
            [of "[(''bpm'', PInt 120), (''duration'', PBool True)]" "\<lambda>v. ''?''"]
    by (simp add: Let_def dict_get_def str_int_120 one)
qed

subsection \<open>C8: build\_metadata\_dict\<close>

lemma build_metadata_dict_entries:
  "build_metadata_dict int_str bpm key_scale time_signature duration =
     [(''bpm'', if bpm \<noteq> PNone
                then (case bpm of
                        PStr s \<Rightarrow> (case int_str s of Some n \<Rightarrow> PInt n | None \<Rightarrow> PStr ''N/A'')
                      | _ \<Rightarrow> bpm)
                else PStr ''N/A''),
      (''keyscale'', if truthy key_scale then key_scale else PStr ''N/A''),
      (''timesignature'', if truthy time_signature then time_signature else PStr ''N/A''),
      (''duration'', if duration \<noteq> PNone then duration else PInt 30)]"
  by (cases bpm) (simp_all add: build_metadata_dict_def dict_set_def dict_contains_def
        split: option.splits)

text \<open>
  C8. The dictionary built by \<open>build_metadata_dict\<close> has the keys \<open>bpm\<close>, \<open>keyscale\<close>,
  \<open>timesignature\<close>, \<open>duration\<close>. Under \<open>bpm\<close>: \<open>N/A\<close> for \<^verbatim>\<open>None\<close>; the integer for a
  string that \<^verbatim>\<open>int\<close> parses; \<open>N/A\<close> for a string that it rejects; the value itself
  for anything that is not a string. Under \<open>keyscale\<close> and \<open>timesignature\<close>: \<open>N/A\<close> for
  \<^verbatim>\<open>None\<close> and for the empty string, a non-empty string itself. Under \<open>duration\<close>: 30
  for \<^verbatim>\<open>None\<close>, the value itself otherwise.
\<close>

theorem build_metadata_dict_fields:
  "(let metadata = build_metadata_dict int_str bpm key_scale time_signature duration in
      map fst metadata = [''bpm'', ''keyscale'', ''timesignature'', ''duration'']
    \<and> (bpm = PNone \<longrightarrow> map_of metadata ''bpm'' = Some (PStr ''N/A''))
    \<and> (\<forall>s n. bpm = PStr s \<and> int_str s = Some n \<longrightarrow> map_of metadata ''bpm'' = Some (PInt n))
    \<and> (\<forall>s. bpm = PStr s \<and> int_str s = None \<longrightarrow> map_of metadata ''bpm'' = Some (PStr ''N/A''))
    \<and> (bpm \<noteq> PNone \<and> \<not> is_str bpm \<longrightarrow> map_of metadata ''bpm'' = Some bpm)
    \<and> (key_scale = PNone \<or> key_scale = PStr '''' \<longrightarrow>
          map_of metadata ''keyscale'' = Some (PStr ''N/A''))
    \<and> (\<forall>s. key_scale = PStr s \<and> s \<noteq> '''' \<longrightarrow> map_of metadata ''keyscale'' = Some (PStr s))
    \<and> (time_signature = PNone \<or> time_signature = PStr '''' \<longrightarrow>
          map_of metadata ''timesignature'' = Some (PStr ''N/A''))
    \<and> (\<forall>s. time_signature = PStr s \<and> s \<noteq> '''' \<longrightarrow>
          map_of metadata ''timesignature'' = Some (PStr s))
    \<and> (duration = PNone \<longrightarrow> map_of metadata ''duration'' = Some (PInt 30))
    \<and> (duration \<noteq> PNone \<longrightarrow> map_of metadata ''duration'' = Some duration))"
proof -
  let ?m = "build_metadata_dict int_str bpm key_scale time_signature duration"
  have keys: "map fst ?m = [''bpm'', ''keyscale'', ''timesignature'', ''duration'']"
    by (simp add: build_metadata_dict_entries)
  have b1: "bpm = PNone \<longrightarrow> map_of ?m ''bpm'' = Some (PStr ''N/A'')"
    by (simp add: build_metadata_dict_entries)
  have b2: "\<forall>s n. bpm = PStr s \<and> int_str s = Some n \<longrightarrow> map_of ?m ''bpm'' = Some (PInt n)"
    by (simp add: build_metadata_dict_entries)
  have b3: "\<forall>s. bpm = PStr s \<and> int_str s = None \<longrightarrow> map_of ?m ''bpm'' = Some (PStr ''N/A'')"
    by (simp add: build_metadata_dict_entries)
  have b4: "bpm \<noteq> PNone \<and> \<not> is_str bpm \<longrightarrow> map_of ?m ''bpm'' = Some bpm"
    by (cases bpm) (simp_all add: build_metadata_dict_entries)
  have k1: "key_scale = PNone \<or> key_scale = PStr '''' \<longrightarrow>
          map_of ?m ''keyscale'' = Some (PStr ''N/A'')"
    by (auto simp: build_metadata_dict_entries)
  have k2: "\<forall>s. key_scale = PStr s \<and> s \<noteq> '''' \<longrightarrow> map_of ?m ''keyscale'' = Some (PStr s)"
    by (simp add: build_metadata_dict_entries)
  have t1: "time_signature = PNone \<or> time_signature = PStr '''' \<longrightarrow>
          map_of ?m ''timesignature'' = Some (PStr ''N/A'')"
    by (auto simp: build_metadata_dict_entries)
  have t2: "\<forall>s. time_signature = PStr s \<and> s \<noteq> '''' \<longrightarrow>
          map_of ?m ''timesignature'' = Some (PStr s)"
    by (simp add: build_metadata_dict_entries)
  have d1: "duration = PNone \<longrightarrow> map_of ?m ''duration'' = Some (PInt 30)"
    by (simp add: build_metadata_dict_entries)
  have d2: "duration \<noteq> PNone \<longrightarrow> map_of ?m ''duration'' = Some duration"
    by (simp add: build_metadata_dict_entries)
  from keys b1 b2 b3 b4 k1 k2 t1 t2 d1 d2 show ?thesis
    unfolding Let_def by blast
qed

lemma py_int_of_str_examples:
  "py_int_of_str '' 1_20 '' = Some 120"
  "py_int_of_str ''fast'' = None"
  by code_simp+

theorem build_metadata_dict_fields_witness:
  "build_metadata_dict py_int_of_str (PStr '' 1_20 '') (PStr ''C major'') PNone PNone
     = [(''bpm'', PInt 120), (''keyscale'', PStr ''C major''),
        (''timesignature'', PStr ''N/A''), (''duration'', PInt 30)]
   \<and> build_metadata_dict py_int_of_str (PStr ''fast'') (PStr '''') (PStr ''4/4'')
         (PFloat (Finite (61 / 2)))
     = [(''bpm'', PStr ''N/A''), (''keyscale'', PStr ''N/A''),
        (''timesignature'', PStr ''4/4''), (''duration'', PFloat (Finite (61 / 2)))]
   \<and> map_of (build_metadata_dict py_int_of_str (PInt 90) PNone PNone (PInt 12)) ''bpm''
     = Some (PInt 90)"
  using build_metadata_dict_fields
          [of py_int_of_str "PStr '' 1_20 ''" "PStr ''C major''" PNone PNone]
        build_metadata_dict_fields
          [of py_int_of_str "PStr ''fast''" "PStr ''''" "PStr ''4/4''" "PFloat (Finite (61 / 2))"]
        build_metadata_dict_fields
          [of py_int_of_str "PInt 90" PNone PNone "PInt 12"]
  by (simp add: py_int_of_str_examples build_metadata_dict_entries)

subsection \<open>C9: extract\_caption\_and\_language\<close>

lemma fold_two_appends:
  "fold (\<lambda>x acc. (fst acc @ [g x], snd acc @ [h x])) xs acc =
     (fst acc @ map g xs, snd acc @ map h xs)"
  by (induction xs arbitrary: acc) simp_all

lemma extract_caption_and_language_maps:
  "extract_caption_and_language metas captions vocal_languages =
     (map (\<lambda>im. case snd im of
                   PDict d \<Rightarrow>
                     (case map_of d ''caption'' of
                        Some v \<Rightarrow>
                          if \<not> truthy (if fst im < length captions then PStr (captions ! fst im)
                                        else PStr '''')
                          then v
                          else (if fst im < length captions then PStr (captions ! fst im)
                                else PStr '''')
                      | None \<Rightarrow> (if fst im < length captions then PStr (captions ! fst im)
                                 else PStr ''''))
                 | _ \<Rightarrow> (if fst im < length captions then PStr (captions ! fst im)
                         else PStr ''''))
        (enumerate 0 metas),
      map (\<lambda>im. case snd im of
                   PDict d \<Rightarrow>
                     (case map_of d ''language'' of
                        Some v \<Rightarrow>
                          if (if fst im < length vocal_languages
                              then PStr (vocal_languages ! fst im) else PStr ''none'')
                             = PStr ''none''
                          then v
                          else (if fst im < length vocal_languages
                                then PStr (vocal_languages ! fst im) else PStr ''none'')
                      | None \<Rightarrow> (if fst im < length vocal_languages
                                 then PStr (vocal_languages ! fst im) else PStr ''none''))
                 | _ \<Rightarrow> (if fst im < length vocal_languages
                         then PStr (vocal_languages ! fst im) else PStr ''none''))
        (enumerate 0 metas))"
  unfolding extract_caption_and_language_def extract_step_def [abs_def] Let_def
  by (simp add: fold_two_appends)

text \<open>
  C9. Both lists returned by \<open>extract_caption_and_language\<close> are as long as \<open>metas\<close>.
  At index \<open>i\<close> the caption starts as \<open>captions[i]\<close>, or as the empty string when \<open>i\<close> is
  past the end of \<open>captions\<close>; the language starts as \<open>vocal_languages[i]\<close>, or as
  \<open>none\<close> when \<open>i\<close> is past the end. A dictionary with a \<open>caption\<close> key replaces the
  caption exactly when the caption so far is empty, and one with a \<open>language\<close> key
  replaces the language exactly when the language so far is \<open>none\<close>. No index fails.
\<close>

theorem extract_caption_and_language_entries:
  "(let r = extract_caption_and_language metas captions vocal_languages in
      length (fst r) = length metas \<and> length (snd r) = length metas
    \<and> (\<forall>i < length metas.
         (let caption = (if i < length captions then captions ! i else '''');
              language = (if i < length vocal_languages then vocal_languages ! i else ''none'')
          in fst r ! i =
               (case metas ! i of
                  PDict d \<Rightarrow> (case map_of d ''caption'' of
                                 Some v \<Rightarrow> if caption = '''' then v else PStr caption
                               | None \<Rightarrow> PStr caption)
                | _ \<Rightarrow> PStr caption)
           \<and> snd r ! i =
               (case metas ! i of
                  PDict d \<Rightarrow> (case map_of d ''language'' of
                                 Some v \<Rightarrow> if language = ''none'' then v else PStr language
                               | None \<Rightarrow> PStr language)
                | _ \<Rightarrow> PStr language))))"
proof -
  have lens: "length (fst (extract_caption_and_language metas captions vocal_languages)) = length metas"
    "length (snd (extract_caption_and_language metas captions vocal_languages)) = length metas"
    by (simp_all add: extract_caption_and_language_maps)
  have entry: "fst (extract_caption_and_language metas captions vocal_languages) ! i =
               (case metas ! i of
                  PDict d \<Rightarrow> (case map_of d ''caption'' of
                                 Some v \<Rightarrow> if (if i < length captions then captions ! i else '''') = ''''
                                           then v
                                           else PStr (if i < length captions then captions ! i else '''')
                               | None \<Rightarrow> PStr (if i < length captions then captions ! i else ''''))
                | _ \<Rightarrow> PStr (if i < length captions then captions ! i else ''''))
           \<and> snd (extract_caption_and_language metas captions vocal_languages) ! i =
               (case metas ! i of
                  PDict d \<Rightarrow> (case map_of d ''language'' of
                                 Some v \<Rightarrow> if (if i < length vocal_languages then vocal_languages ! i else ''none'') = ''none''
                                           then v
                                           else PStr (if i < length vocal_languages then vocal_languages ! i else ''none'')
                               | None \<Rightarrow> PStr (if i < length vocal_languages then vocal_languages ! i else ''none''))
                | _ \<Rightarrow> PStr (if i < length vocal_languages then vocal_languages ! i else ''none''))"
    if "i < length metas" for i
    using that
    by (simp add: extract_caption_and_language_maps nth_enumerate_eq
          split: pyval.splits option.splits)
  from lens entry show ?thesis unfolding Let_def by blast
qed

theorem extract_caption_and_language_entries_witness:
  "extract_caption_and_language
      [PDict [(''caption'', PStr ''rock''), (''language'', PStr ''en'')],
       PDict [(''caption'', PStr ''jazz''), (''language'', PStr ''de'')],
       PStr ''- bpm: 90'',
       PDict [(''language'', PStr ''ja'')]]
      ['''', ''pop''] [''fr'', ''none'', ''es'']
   = ([PStr ''rock'', PStr ''pop'', PStr '''', PStr ''''],
      [PStr ''fr'', PStr ''de'', PStr ''es'', PStr ''ja''])"
  using extract_caption_and_language_entries
          [of "[PDict [(''caption'', PStr ''rock''), (''language'', PStr ''en'')],
                PDict [(''caption'', PStr ''jazz''), (''language'', PStr ''de'')],
                PStr ''- bpm: 90'',
                PDict [(''language'', PStr ''ja'')]]"
              "['''', ''pop'']" "[''fr'', ''none'', ''es'']"]
  by (simp add: extract_caption_and_language_maps enumerate_eq_zip upt_rec numeral_eq_Suc)

end
